theory Spec2Isabelle
  imports Main "HOL-Library.Word"
begin

section \<open>Common conventions\<close>

text \<open>
  The repository is a set of independent Go programs, one per SOLID principle
  (\<^verbatim>\<open>src/solid/srp.go\<close>, \<^verbatim>\<open>src/solid/ocp.go\<close>, and the ISP, LSP and DIP programs
  that follow each other in \<^verbatim>\<open>src/solid/isp.go\<close>). The first part of this theory is the
  model of the programs, the second part states and proves their properties. The ISP
  program only prints fixed lines and is not modelled.

  Go's \<^verbatim>\<open>int\<close> is a two's complement machine integer; it is modelled at its 64-bit
  width, so \<open>+\<close> and \<open>*\<close> wrap around and \<open>sint\<close> reads the signed value. Go's
  \<^verbatim>\<open>string\<close> is a sequence of bytes, which is what \<^typ>\<open>string\<close> is in HOL.

  A method comes with its receiver as first argument. A method with a pointer receiver that
  assigns to a field is modelled by explicit state passing: it takes the receiver's value
  and returns the updated one. Pointers are taken to be non-nil. Receivers of empty struct
  type that the method never reads (\<^verbatim>\<open>WrongFilter\<close>, \<^verbatim>\<open>RightFilter\<close>,
  \<^verbatim>\<open>LogFileWriter\<close>) are left out.
\<close>

type_synonym go_int = "64 word"

section \<open>The Open/Closed example (\<^verbatim>\<open>ocp.go\<close>)\<close>

subsection \<open>Data\<close>

text \<open>\<^verbatim>\<open>type Size int\<close> and \<^verbatim>\<open>type Color int\<close>, with their \<^verbatim>\<open>iota\<close> constants.\<close>

type_synonym Size = go_int
type_synonym Color = go_int

definition Small :: Size where "Small = 0"
definition Medium :: Size where "Medium = 1"
definition Large :: Size where "Large = 2"
definition Giant :: Size where "Giant = 3"

definition Red :: Color where "Red = 0"
definition Green :: Color where "Green = 1"
definition Blue :: Color where "Blue = 2"
definition Yellow :: Color where "Yellow = 3"
definition Black :: Color where "Black = 4"
definition White :: Color where "White = 5"

text \<open>
  \<^verbatim>\<open>type Product struct { name string; size Size; color Color }\<close>. The field \<^verbatim>\<open>size\<close>
  is called \<open>size_of\<close> here, since \<open>size\<close> is a constant of HOL. The filters only read
  through a \<^verbatim>\<open>*Product\<close> and hand the same pointer on, so a pointer is represented by the
  product it points to.
\<close>

record Product =
  name :: string
  size_of :: Size
  color :: Color

definition GetName :: "Product \<Rightarrow> string" where
  "GetName p = name p"

definition NewProduct :: "string \<Rightarrow> Size \<Rightarrow> Color \<Rightarrow> Product" where
  "NewProduct n s c = \<lparr>name = n, size_of = s, color = c\<rparr>"

subsection \<open>The hard-coded filters\<close>

text \<open>
  Each method starts from \<^verbatim>\<open>result := []*Product{}\<close> and appends inside a
  \<^verbatim>\<open>for _, product := range products\<close> loop. The loop is a recursive function over the
  remaining elements that carries \<^verbatim>\<open>result\<close>.
\<close>

fun BySize_loop :: "Size \<Rightarrow> Product list \<Rightarrow> Product list \<Rightarrow> Product list" where
  "BySize_loop s [] result = result"
| "BySize_loop s (product # rest) result =
     BySize_loop s rest (if size_of product = s then result @ [product] else result)"

definition BySize :: "Product list \<Rightarrow> Size \<Rightarrow> Product list" where
  "BySize products s = BySize_loop s products []"

fun ByColor_loop :: "Color \<Rightarrow> Product list \<Rightarrow> Product list \<Rightarrow> Product list" where
  "ByColor_loop c [] result = result"
| "ByColor_loop c (product # rest) result =
     ByColor_loop c rest (if color product = c then result @ [product] else result)"

definition ByColor :: "Product list \<Rightarrow> Color \<Rightarrow> Product list" where
  "ByColor products c = ByColor_loop c products []"

fun BySizeAndColor_loop ::
  "Size \<Rightarrow> Color \<Rightarrow> Product list \<Rightarrow> Product list \<Rightarrow> Product list" where
  "BySizeAndColor_loop s c [] result = result"
| "BySizeAndColor_loop s c (product # rest) result =
     BySizeAndColor_loop s c rest
       (if size_of product = s \<and> color product = c then result @ [product] else result)"

definition BySizeAndColor :: "Product list \<Rightarrow> Size \<Rightarrow> Color \<Rightarrow> Product list" where
  "BySizeAndColor products s c = BySizeAndColor_loop s c products []"

subsection \<open>Specifications and the generic filter\<close>

text \<open>
  \<^verbatim>\<open>ISpecification\<close> is an interface with the single method \<^verbatim>\<open>IsSatisfied\<close>. A value of
  it is one of the three implementations of the file; \<open>OtherSpecification\<close> stands for any
  further implementation whose \<^verbatim>\<open>IsSatisfied\<close> is a pure, total test of the product.
\<close>

datatype ISpecification =
    ColorSpecification Color
  | SizeSpecification Size
  | AndSpecification ISpecification ISpecification
  | OtherSpecification "Product \<Rightarrow> bool"

fun IsSatisfied :: "ISpecification \<Rightarrow> Product \<Rightarrow> bool" where
  "IsSatisfied (ColorSpecification c) product = (c = color product)"
| "IsSatisfied (SizeSpecification s) product = (s = size_of product)"
| "IsSatisfied (AndSpecification first second) product =
     (IsSatisfied first product \<and> IsSatisfied second product)"
| "IsSatisfied (OtherSpecification test) product = test product"

definition NewColorSpecification :: "Color \<Rightarrow> ISpecification" where
  "NewColorSpecification c = ColorSpecification c"

definition NewSizeSpecification :: "Size \<Rightarrow> ISpecification" where
  "NewSizeSpecification s = SizeSpecification s"

definition NewAndSpecification :: "ISpecification \<Rightarrow> ISpecification \<Rightarrow> ISpecification" where
  "NewAndSpecification first second = AndSpecification first second"

fun Filter_loop :: "ISpecification \<Rightarrow> Product list \<Rightarrow> Product list \<Rightarrow> Product list" where
  "Filter_loop specification [] result = result"
| "Filter_loop specification (product # rest) result =
     Filter_loop specification rest
       (if IsSatisfied specification product then result @ [product] else result)"

definition Filter :: "Product list \<Rightarrow> ISpecification \<Rightarrow> Product list" where
  "Filter products specification = Filter_loop specification products []"

section \<open>The Liskov example (\<^verbatim>\<open>isp.go\<close>, lines 128 to 198)\<close>

text \<open>\<^verbatim>\<open>type Rectangle struct { width, height int }\<close> and its five methods.\<close>

record Rectangle =
  width :: go_int
  height :: go_int

definition Rectangle_GetWidth :: "Rectangle \<Rightarrow> go_int" where
  "Rectangle_GetWidth r = width r"

definition Rectangle_GetHeight :: "Rectangle \<Rightarrow> go_int" where
  "Rectangle_GetHeight r = height r"

definition Rectangle_SetWidth :: "Rectangle \<Rightarrow> go_int \<Rightarrow> Rectangle" where
  "Rectangle_SetWidth r w = r\<lparr>width := w\<rparr>"

definition Rectangle_SetHeight :: "Rectangle \<Rightarrow> go_int \<Rightarrow> Rectangle" where
  "Rectangle_SetHeight r h = r\<lparr>height := h\<rparr>"

definition Rectangle_Area :: "Rectangle \<Rightarrow> go_int" where
  "Rectangle_Area r = width r * height r"

text \<open>
  \<^verbatim>\<open>type Square struct { Rectangle }\<close> embeds a rectangle: the embedded struct is a field
  named after its type, and \<^verbatim>\<open>s.width\<close> is \<^verbatim>\<open>s.Rectangle.width\<close>. The two setters of
  \<^verbatim>\<open>Square\<close> make two assignments, one after the other.
\<close>

record Square =
  Rectangle :: Rectangle

definition Square_SetWidth :: "Square \<Rightarrow> go_int \<Rightarrow> Square" where
  "Square_SetWidth s w =
     (let s1 = s\<lparr>Rectangle := (Rectangle s)\<lparr>width := w\<rparr>\<rparr>
      in s1\<lparr>Rectangle := (Rectangle s1)\<lparr>height := w\<rparr>\<rparr>)"

definition Square_SetHeight :: "Square \<Rightarrow> go_int \<Rightarrow> Square" where
  "Square_SetHeight s h =
     (let s1 = s\<lparr>Rectangle := (Rectangle s)\<lparr>width := h\<rparr>\<rparr>
      in s1\<lparr>Rectangle := (Rectangle s1)\<lparr>height := h\<rparr>\<rparr>)"

text \<open>
  A value of the interface \<^verbatim>\<open>IRectangle\<close> is a \<^verbatim>\<open>*Rectangle\<close> or a \<^verbatim>\<open>*Square\<close>. A call
  through the interface is dispatched on the dynamic type: \<^verbatim>\<open>*Square\<close> has its own
  \<^verbatim>\<open>SetWidth\<close> and \<^verbatim>\<open>SetHeight\<close>, and the promoted \<^verbatim>\<open>GetWidth\<close>, \<^verbatim>\<open>GetHeight\<close> and
  \<^verbatim>\<open>Area\<close> of the embedded rectangle.
\<close>

datatype IRectangle = RectanglePtr Rectangle | SquarePtr Square

fun GetWidth :: "IRectangle \<Rightarrow> go_int" where
  "GetWidth (RectanglePtr r) = Rectangle_GetWidth r"
| "GetWidth (SquarePtr s) = Rectangle_GetWidth (Rectangle s)"

fun GetHeight :: "IRectangle \<Rightarrow> go_int" where
  "GetHeight (RectanglePtr r) = Rectangle_GetHeight r"
| "GetHeight (SquarePtr s) = Rectangle_GetHeight (Rectangle s)"

fun SetWidth :: "IRectangle \<Rightarrow> go_int \<Rightarrow> IRectangle" where
  "SetWidth (RectanglePtr r) w = RectanglePtr (Rectangle_SetWidth r w)"
| "SetWidth (SquarePtr s) w = SquarePtr (Square_SetWidth s w)"

fun SetHeight :: "IRectangle \<Rightarrow> go_int \<Rightarrow> IRectangle" where
  "SetHeight (RectanglePtr r) h = RectanglePtr (Rectangle_SetHeight r h)"
| "SetHeight (SquarePtr s) h = SquarePtr (Square_SetHeight s h)"

fun Area :: "IRectangle \<Rightarrow> go_int" where
  "Area (RectanglePtr r) = Rectangle_Area r"
| "Area (SquarePtr s) = Rectangle_Area (Rectangle s)"

definition NewRectangle :: "go_int \<Rightarrow> go_int \<Rightarrow> IRectangle" where
  "NewRectangle w h = RectanglePtr \<lparr>width = w, height = h\<rparr>"

text \<open>\<^verbatim>\<open>NewSquare\<close> starts from the zero value \<^verbatim>\<open>&Square{}\<close> and calls \<^verbatim>\<open>SetHeight\<close>.\<close>

definition NewSquare :: "go_int \<Rightarrow> IRectangle" where
  "NewSquare sz =
     (let result = \<lparr>Rectangle = \<lparr>width = 0, height = 0\<rparr>\<rparr>;
          result = Square_SetHeight result sz
      in SquarePtr result)"

text \<open>
  A client that holds an \<^verbatim>\<open>IRectangle\<close> can do nothing but call its five methods. A
  sequence of such calls is run by \<open>calls_on\<close>; the three reading methods return a number
  and leave the object as it is.
\<close>

datatype rectangle_call =
    CallGetWidth
  | CallGetHeight
  | CallSetWidth go_int
  | CallSetHeight go_int
  | CallArea

fun call_on :: "IRectangle \<Rightarrow> rectangle_call \<Rightarrow> IRectangle" where
  "call_on x CallGetWidth = x"
| "call_on x CallGetHeight = x"
| "call_on x (CallSetWidth w) = SetWidth x w"
| "call_on x (CallSetHeight h) = SetHeight x h"
| "call_on x CallArea = x"

definition calls_on :: "IRectangle \<Rightarrow> rectangle_call list \<Rightarrow> IRectangle" where
  "calls_on x cs = foldl call_on x cs"

section \<open>The Dependency Inversion example (\<^verbatim>\<open>isp.go\<close>, lines 223 to 295)\<close>

text \<open>
  \<^verbatim>\<open>RegularWorker\<close> and \<^verbatim>\<open>SpecialWorker\<close> are empty structs; a value of the interface
  \<^verbatim>\<open>IWorker\<close> is a pointer to one of them, kept here with its address. \<^verbatim>\<open>Work\<close> prints
  one line. The state of a run is the standard output, as the list of the lines printed,
  together with the record of the calls of \<^verbatim>\<open>Work\<close> made so far: the receiver of each call,
  in the order of the calls.
\<close>

datatype IWorker = RegularWorker nat | SpecialWorker nat

record Run =
  stdout :: "string list"
  worked :: "IWorker list"

definition Println :: "string \<Rightarrow> Run \<Rightarrow> Run" where
  "Println line r = r\<lparr>stdout := stdout r @ [line]\<rparr>"

fun Work :: "IWorker \<Rightarrow> Run \<Rightarrow> Run" where
  "Work (RegularWorker p) r = Println ''Working...'' (r\<lparr>worked := worked r @ [RegularWorker p]\<rparr>)"
| "Work (SpecialWorker p) r =
     Println ''Especially working...'' (r\<lparr>worked := worked r @ [SpecialWorker p]\<rparr>)"

text \<open>\<^verbatim>\<open>type Manager struct { workers []IWorker }\<close>; \<open>Manager_zero\<close> is \<^verbatim>\<open>&Manager{}\<close>.\<close>

record Manager =
  workers :: "IWorker list"

definition Manager_zero :: Manager where
  "Manager_zero = \<lparr>workers = []\<rparr>"

definition AddWorker :: "Manager \<Rightarrow> IWorker \<Rightarrow> Manager" where
  "AddWorker m w = m\<lparr>workers := workers m @ [w]\<rparr>"

fun DelegateWork_loop :: "IWorker list \<Rightarrow> Run \<Rightarrow> Run" where
  "DelegateWork_loop [] r = r"
| "DelegateWork_loop (w # rest) r = DelegateWork_loop rest (Work w r)"

definition DelegateWork :: "Manager \<Rightarrow> Run \<Rightarrow> Run" where
  "DelegateWork m r = DelegateWork_loop (workers m) r"

section \<open>The Single Responsibility example (\<^verbatim>\<open>srp.go\<close>)\<close>

subsection \<open>The logger\<close>

text \<open>\<^verbatim>\<open>type Logger struct { logEntries []string }\<close>; \<open>Logger_zero\<close> is \<^verbatim>\<open>&Logger{}\<close>.\<close>

record Logger =
  logEntries :: "string list"

definition Logger_zero :: Logger where
  "Logger_zero = \<lparr>logEntries = []\<rparr>"

definition Log :: "Logger \<Rightarrow> string \<Rightarrow> Logger" where
  "Log l entry = l\<lparr>logEntries := logEntries l @ [entry]\<rparr>"

subsection \<open>The files of the operating system\<close>

text \<open>
  \<^verbatim>\<open>Save\<close> works on the file system through three functions of Go's library:
  \<^verbatim>\<open>os.Create\<close>, \<^verbatim>\<open>(*os.File).WriteString\<close> and \<^verbatim>\<open>(*os.File).Close\<close>. They are not part of
  the repository; what follows is the environment the two \<^verbatim>\<open>Save\<close> methods run in.

  A \<open>World\<close> holds the contents of the files by path, the open descriptors with the path
  each was opened on, the number of bytes the device still takes, and the library calls
  made so far. \<open>denied\<close> tells for which paths \<^verbatim>\<open>os.Create\<close> fails (a missing directory, a
  missing permission): it is a parameter of the environment.
  \<^item> \<^verbatim>\<open>os.Create\<close> fails with a \<^verbatim>\<open>*PathError\<close> and opens nothing, or it creates the file,
    truncating one that exists, and returns a new descriptor.
  \<^item> \<^verbatim>\<open>WriteString\<close> appends to the file of an open descriptor as many bytes of the
    string as the device takes; it returns their number and an error when some were not
    written.
  \<^item> \<^verbatim>\<open>Close\<close> releases the descriptor.
\<close>

datatype error = PathError string | ErrClosed | ErrNoSpace

datatype File = File nat

datatype library_call =
    CallCreate string "File option"
  | CallWriteString File string
  | CallClose File

record World =
  files :: "string \<rightharpoonup> string"
  denied :: "string \<Rightarrow> bool"
  descriptors :: "(nat \<times> string) list"
  free_bytes :: nat
  calls :: "library_call list"

definition fresh_fd :: "(nat \<times> string) list \<Rightarrow> nat" where
  "fresh_fd ds = Suc (fold max (map fst ds) 0)"

definition os_Create :: "string \<Rightarrow> World \<Rightarrow> (error + File) \<times> World" where
  "os_Create path w =
     (if denied w path
      then (Inl (PathError path), w\<lparr>calls := calls w @ [CallCreate path None]\<rparr>)
      else (let fd = fresh_fd (descriptors w)
            in (Inr (File fd),
                w\<lparr>files := (files w)(path \<mapsto> []),
                  descriptors := (fd, path) # descriptors w,
                  calls := calls w @ [CallCreate path (Some (File fd))]\<rparr>)))"

fun WriteString :: "File \<Rightarrow> string \<Rightarrow> World \<Rightarrow> (nat \<times> error option) \<times> World" where
  "WriteString (File fd) s w =
     (case map_of (descriptors w) fd of
        None \<Rightarrow> ((0, Some ErrClosed), w\<lparr>calls := calls w @ [CallWriteString (File fd) s]\<rparr>)
      | Some path \<Rightarrow>
          (let n = min (length s) (free_bytes w);
               old = (case files w path of None \<Rightarrow> [] | Some c \<Rightarrow> c)
           in ((n, if n < length s then Some ErrNoSpace else None),
               w\<lparr>files := (files w)(path \<mapsto> old @ take n s),
                 free_bytes := free_bytes w - n,
                 calls := calls w @ [CallWriteString (File fd) s]\<rparr>)))"

fun Close :: "File \<Rightarrow> World \<Rightarrow> error option \<times> World" where
  "Close (File fd) w =
     (case map_of (descriptors w) fd of
        None \<Rightarrow> (Some ErrClosed, w\<lparr>calls := calls w @ [CallClose (File fd)]\<rparr>)
      | Some path \<Rightarrow>
          (None, w\<lparr>descriptors := filter (\<lambda>d. fst d \<noteq> fd) (descriptors w),
                   calls := calls w @ [CallClose (File fd)]\<rparr>))"

subsection \<open>The two save methods\<close>

text \<open>
  Both bodies are the same: \<^verbatim>\<open>os.Create\<close>, an early return of its error, then
  \<^verbatim>\<open>defer f.Close()\<close>, the loop over the entries and \<^verbatim>\<open>return nil\<close>. The loop drops both
  results of \<^verbatim>\<open>f.WriteString(entry + "\n")\<close>. The deferred \<^verbatim>\<open>Close\<close> runs when the
  function returns, after the loop, and its result is dropped too. A method returns its
  error, the logger as the call leaves it, and the world.
\<close>

definition newline :: string where
  "newline = [CHR 0x0A]"

fun Save_loop :: "File \<Rightarrow> string list \<Rightarrow> World \<Rightarrow> World" where
  "Save_loop f [] w = w"
| "Save_loop f (entry # rest) w = Save_loop f rest (snd (WriteString f (entry @ newline) w))"

definition Logger_Save :: "Logger \<Rightarrow> string \<Rightarrow> World \<Rightarrow> error option \<times> Logger \<times> World" where
  "Logger_Save l filename w =
     (case os_Create filename w of
        (Inl err, w1) \<Rightarrow> (Some err, l, w1)
      | (Inr f, w1) \<Rightarrow>
          (let w2 = Save_loop f (logEntries l) w1;
               w3 = snd (Close f w2)
           in (None, l, w3)))"

definition LogFileWriter_Save ::
  "Logger \<Rightarrow> string \<Rightarrow> World \<Rightarrow> error option \<times> Logger \<times> World" where
  "LogFileWriter_Save logger filename w =
     (case os_Create filename w of
        (Inl err, w1) \<Rightarrow> (Some err, logger, w1)
      | (Inr f, w1) \<Rightarrow>
          (let w2 = Save_loop f (logEntries logger) w1;
               w3 = snd (Close f w2)
           in (None, logger, w3)))"

subsection \<open>What the specification says of a saved file\<close>

text \<open>
  The specification describes the saved file as the entries, one per line, each
  terminated by a newline, in the order of the appends: \<open>one_per_line\<close>. It reads a file
  back as its lines: \<open>read_lines\<close> cuts the text at every newline; text after the last
  newline, if there is any, is a last line. Neither is a function of the repository.
\<close>

definition one_per_line :: "string list \<Rightarrow> string" where
  "one_per_line entries = concat (map (\<lambda>e. e @ newline) entries)"

fun read_lines_from :: "string \<Rightarrow> string \<Rightarrow> string list" where
  "read_lines_from cur [] = (if cur = [] then [] else [cur])"
| "read_lines_from cur (c # cs) =
     (if c = CHR 0x0A then cur # read_lines_from [] cs else read_lines_from (cur @ [c]) cs)"

definition read_lines :: "string \<Rightarrow> string list" where
  "read_lines s = read_lines_from [] s"

subsection \<open>Worlds to run the program in\<close>

text \<open>
  \<open>empty_disk n\<close> has no file and no open descriptor, lets every path be created and takes
  \<open>n\<close> more bytes. \<open>read_only_disk\<close> lets no path be created.
\<close>

definition empty_disk :: "nat \<Rightarrow> World" where
  "empty_disk n =
     \<lparr>files = Map.empty, denied = (\<lambda>path. False), descriptors = [], free_bytes = n, calls = []\<rparr>"

definition read_only_disk :: World where
  "read_only_disk =
     \<lparr>files = Map.empty, denied = (\<lambda>path. True), descriptors = [], free_bytes = 0, calls = []\<rparr>"

section \<open>Properties of the filters\<close>

lemma Filter_loop_filter:
  "Filter_loop specification products result =
     result @ filter (IsSatisfied specification) products"
  by (induction products arbitrary: result) simp_all

lemma BySize_loop_filter:
  "BySize_loop s products result = result @ filter (\<lambda>p. size_of p = s) products"
  by (induction products arbitrary: result) simp_all

lemma ByColor_loop_filter:
  "ByColor_loop c products result = result @ filter (\<lambda>p. color p = c) products"
  by (induction products arbitrary: result) simp_all

lemma BySizeAndColor_loop_filter:
  "BySizeAndColor_loop s c products result =
     result @ filter (\<lambda>p. size_of p = s \<and> color p = c) products"
  by (induction products arbitrary: result) simp_all

text \<open>
  Claim C1. For every sequence of products and every specification, \<^verbatim>\<open>RightFilter.Filter\<close>
  returns exactly the products of the input for which \<^verbatim>\<open>IsSatisfied\<close> is true, in the
  order in which they stand in the input: the result is the list \<open>filter\<close> of HOL, which
  keeps the satisfying elements, with their multiplicity, in their original order.
\<close>

theorem Filter_is_ordered_subsequence:
  "Filter products specification = filter (IsSatisfied specification) products"
  by (simp add: Filter_def Filter_loop_filter)

text \<open>
  Claim C3. Filtering by \<^verbatim>\<open>NewAndSpecification(p, q)\<close> is filtering by \<open>p\<close> and then
  filtering the result by \<open>q\<close>, and the combinator is satisfied by a product exactly when both
  of its components are.
\<close>

theorem Filter_And_is_Filter_twice:
  "Filter products (NewAndSpecification p q) = Filter (Filter products p) q
   \<and> IsSatisfied (NewAndSpecification p q) product
       = (IsSatisfied p product \<and> IsSatisfied q product)"
proof -
  have sat: "IsSatisfied (AndSpecification p q) = (\<lambda>x. IsSatisfied p x \<and> IsSatisfied q x)"
    by (rule ext) simp
  have "filter (IsSatisfied (AndSpecification p q)) products
          = filter (IsSatisfied q) (filter (IsSatisfied p) products)"
    unfolding sat by (simp add: conj_commute)
  then show ?thesis
    by (simp add: Filter_def Filter_loop_filter NewAndSpecification_def)
qed

text \<open>
  Claim C10. The three hard-coded filters of \<^verbatim>\<open>WrongFilter\<close> return the same lists as
  \<^verbatim>\<open>RightFilter.Filter\<close> with the size specification, the colour specification and
  their conjunction.
\<close>

theorem WrongFilter_eq_RightFilter:
  "BySize products s = Filter products (NewSizeSpecification s)
   \<and> ByColor products c = Filter products (NewColorSpecification c)
   \<and> BySizeAndColor products s c
       = Filter products (NewAndSpecification (NewSizeSpecification s) (NewColorSpecification c))"
proof -
  have size_test: "IsSatisfied (SizeSpecification s) = (\<lambda>p. size_of p = s)"
    by (rule ext) auto
  have color_test: "IsSatisfied (ColorSpecification c) = (\<lambda>p. color p = c)"
    by (rule ext) auto
  have both_test:
    "IsSatisfied (AndSpecification (SizeSpecification s) (ColorSpecification c))
       = (\<lambda>p. size_of p = s \<and> color p = c)"
    by (rule ext) auto
  have "BySize products s = Filter products (NewSizeSpecification s)"
    by (simp add: BySize_def BySize_loop_filter Filter_def Filter_loop_filter
        NewSizeSpecification_def size_test)
  moreover have "ByColor products c = Filter products (NewColorSpecification c)"
    by (simp add: ByColor_def ByColor_loop_filter Filter_def Filter_loop_filter
        NewColorSpecification_def color_test)
  moreover have "BySizeAndColor products s c
       = Filter products (NewAndSpecification (NewSizeSpecification s) (NewColorSpecification c))"
    by (simp add: BySizeAndColor_def BySizeAndColor_loop_filter Filter_def Filter_loop_filter
        NewSizeSpecification_def NewColorSpecification_def NewAndSpecification_def both_test)
  ultimately show ?thesis by simp
qed

text \<open>
  The scenario of \<^verbatim>\<open>main\<close>: the five products, filtered for the small ones, the green ones
  and the large yellow ones.
\<close>

lemma ocp_main_scenario:
  "Filter [NewProduct ''Bike'' Small Blue, NewProduct ''Motorcycle'' Small Green,
           NewProduct ''Car'' Medium Green, NewProduct ''Truck'' Large Red,
           NewProduct ''Train'' Large Yellow] (NewSizeSpecification Small)
     = [NewProduct ''Bike'' Small Blue, NewProduct ''Motorcycle'' Small Green]
   \<and> Filter [NewProduct ''Bike'' Small Blue, NewProduct ''Motorcycle'' Small Green,
           NewProduct ''Car'' Medium Green, NewProduct ''Truck'' Large Red,
           NewProduct ''Train'' Large Yellow] (NewColorSpecification Green)
     = [NewProduct ''Motorcycle'' Small Green, NewProduct ''Car'' Medium Green]
   \<and> Filter [NewProduct ''Bike'' Small Blue, NewProduct ''Motorcycle'' Small Green,
           NewProduct ''Car'' Medium Green, NewProduct ''Truck'' Large Red,
           NewProduct ''Train'' Large Yellow]
          (NewAndSpecification (NewSizeSpecification Large) (NewColorSpecification Yellow))
     = [NewProduct ''Train'' Large Yellow]"
  by (simp add: Filter_def NewProduct_def NewSizeSpecification_def NewColorSpecification_def
      NewAndSpecification_def Small_def Medium_def Large_def Red_def Green_def Blue_def
      Yellow_def)

section \<open>Properties of the rectangle and the square\<close>

lemma mult_sint_no_overflow:
  fixes a b :: go_int
  assumes "- (2 ^ 63) \<le> sint a * sint b" and "sint a * sint b < 2 ^ 63"
  shows "sint (a * b) = sint a * sint b"
  using assms by (simp add: sint_word_ariths signed_take_bit_int_eq_self)

text \<open>
  Claim C5. On a plain rectangle \<^verbatim>\<open>SetHeight\<close> leaves the width as it was, called on the
  struct or through the interface, and \<^verbatim>\<open>Area\<close> is the width times the height. The
  product is that of Go's \<^verbatim>\<open>int\<close>: its signed value is the product of the two signed
  values, wrapped around to 64 bits.
\<close>

theorem Rectangle_SetHeight_keeps_width_and_Area:
  "Rectangle_GetWidth (Rectangle_SetHeight r h) = Rectangle_GetWidth r
   \<and> GetWidth (SetHeight (NewRectangle w h0) h) = w
   \<and> Rectangle_Area r = Rectangle_GetWidth r * Rectangle_GetHeight r
   \<and> Area (SetHeight (NewRectangle w h0) h) = w * h
   \<and> sint (Rectangle_Area r)
        = signed_take_bit 63 (sint (Rectangle_GetWidth r) * sint (Rectangle_GetHeight r))"
  by (simp add: Rectangle_GetWidth_def Rectangle_GetHeight_def Rectangle_SetHeight_def
      Rectangle_Area_def NewRectangle_def sint_word_ariths)

text \<open>
  Without overflow the area is the product of the integers; at width and height \<open>2 ^ 32\<close> it
  has wrapped around to 0.
\<close>

lemma Rectangle_Area_no_overflow:
  assumes "- (2 ^ 63) \<le> sint (width r) * sint (height r)"
    and "sint (width r) * sint (height r) < 2 ^ 63"
  shows "sint (Rectangle_Area r) = sint (width r) * sint (height r)"
  using assms by (simp add: Rectangle_Area_def mult_sint_no_overflow)

lemma Rectangle_Area_wraps:
  "Area (NewRectangle 4294967296 4294967296) = 0"
  by (simp add: NewRectangle_def Rectangle_Area_def)

lemma GetWidth_NewSquare: "GetWidth (NewSquare s) = s"
  by (simp add: NewSquare_def Square_SetHeight_def Rectangle_GetWidth_def)

lemma Area_SetHeight_NewSquare: "Area (SetHeight (NewSquare s) h) = h * h"
  by (simp add: NewSquare_def Square_SetHeight_def Rectangle_Area_def)

text \<open>
  Claim C6, as stated: on a square made by \<^verbatim>\<open>NewSquare(s)\<close>, with \<open>w\<close> the width read
  first, \<^verbatim>\<open>SetHeight(h)\<close> with \<open>h \<noteq> w\<close> gives an area other than \<open>w * h\<close>. This fails at
  \<open>h = 0\<close>: after \<^verbatim>\<open>NewSquare(1)\<close> and \<^verbatim>\<open>SetHeight(0)\<close> the area is \<open>0 * 0\<close>, which is
  \<open>1 * 0\<close>.
\<close>

theorem Square_SetHeight_zero_counterexample:
  "(0 :: go_int) \<noteq> GetWidth (NewSquare 1)
   \<and> Area (SetHeight (NewSquare 1) 0) = GetWidth (NewSquare 1) * 0"
  by (simp add: NewSquare_def Square_SetHeight_def Rectangle_GetWidth_def Rectangle_Area_def)

text \<open>
  It fails as well where a product overflows: \<open>2 ^ 32\<close> is neither 0 nor the width 0 of
  \<^verbatim>\<open>NewSquare(0)\<close>, and its square has wrapped around to 0.
\<close>

lemma Square_SetHeight_overflow_example:
  "(4294967296 :: go_int) \<noteq> GetWidth (NewSquare 0)
   \<and> (4294967296 :: go_int) \<noteq> 0
   \<and> Area (SetHeight (NewSquare 0) 4294967296) = GetWidth (NewSquare 0) * 4294967296"
  by (simp add: NewSquare_def Square_SetHeight_def Rectangle_GetWidth_def Rectangle_Area_def)

text \<open>
  Claim C6, amended: on a square made by \<^verbatim>\<open>NewSquare(s)\<close>, with \<open>w\<close> the width read first,
  \<^verbatim>\<open>SetHeight(h)\<close> sets both dimensions, so the area is \<open>h * h\<close>; it differs from \<open>w * h\<close>
  when \<open>h \<noteq> w\<close>, \<open>h \<noteq> 0\<close> and neither \<open>h * h\<close> nor \<open>w * h\<close> overflows.
\<close>

theorem Square_SetHeight_breaks_expectation:
  assumes "w = GetWidth (NewSquare s)"
    and "h \<noteq> w"
    and "h \<noteq> 0"
    and "- (2 ^ 63) \<le> sint h * sint h" and "sint h * sint h < 2 ^ 63"
    and "- (2 ^ 63) \<le> sint w * sint h" and "sint w * sint h < 2 ^ 63"
  shows "Area (SetHeight (NewSquare s) h) = h * h
   \<and> Area (SetHeight (NewSquare s) h) \<noteq> w * h"
proof -
  have "h * h \<noteq> w * h"
  proof
    assume "h * h = w * h"
    then have "sint (h * h) = sint (w * h)" by simp
    then have "sint h * sint h = sint w * sint h"
      using assms by (simp add: mult_sint_no_overflow)
    moreover have "sint h \<noteq> 0"
      using \<open>h \<noteq> 0\<close> by (simp add: signed_eq_0_iff)
    ultimately have "sint h = sint w" by simp
    then have "h = w" by (rule signed_word_eqI)
    with \<open>h \<noteq> w\<close> show False by simp
  qed
  then show ?thesis by (simp add: Area_SetHeight_NewSquare)
qed

text \<open>The run of \<^verbatim>\<open>main\<close>: it expects \<open>10 * 20\<close> and gets \<open>20 * 20\<close>.\<close>

theorem Square_SetHeight_breaks_expectation_witness:
  "(10 :: go_int) = GetWidth (NewSquare 10)
   \<and> Area (SetHeight (NewSquare 10) 20) = 400
   \<and> Area (SetHeight (NewSquare 10) 20) \<noteq> 10 * 20"
  using Square_SetHeight_breaks_expectation [of 10 10 20]
  by (simp add: GetWidth_NewSquare)

lemma calls_on_Square:
  "\<exists>s'. foldl call_on (SquarePtr s) cs = SquarePtr s'
     \<and> (width (Rectangle s) = height (Rectangle s)
          \<longrightarrow> width (Rectangle s') = height (Rectangle s'))"
proof (induction cs arbitrary: s)
  case Nil
  then show ?case by simp
next
  case (Cons c cs)
  show ?case
  proof (cases c)
    case (CallSetWidth w)
    then show ?thesis
      using Cons [of "Square_SetWidth s w"] by (auto simp: Square_SetWidth_def)
  next
    case (CallSetHeight h)
    then show ?thesis
      using Cons [of "Square_SetHeight s h"] by (auto simp: Square_SetHeight_def)
  qed (use Cons [of s] in auto)
qed

text \<open>
  Claim C9. The width of a square is its height: \<^verbatim>\<open>NewSquare\<close> makes them equal,
  \<^verbatim>\<open>Square.SetWidth\<close> and \<^verbatim>\<open>Square.SetHeight\<close> leave them equal (they make them equal on any
  square), and so they are equal after any sequence of calls of the methods of
  \<^verbatim>\<open>IRectangle\<close> on the result of \<^verbatim>\<open>NewSquare\<close>.
\<close>

theorem Square_width_is_height:
  "GetWidth (NewSquare sz) = GetHeight (NewSquare sz)
   \<and> GetWidth (SetWidth (SquarePtr s) w) = GetHeight (SetWidth (SquarePtr s) w)
   \<and> GetWidth (SetHeight (SquarePtr s) h) = GetHeight (SetHeight (SquarePtr s) h)
   \<and> GetWidth (calls_on (NewSquare sz) cs) = GetHeight (calls_on (NewSquare sz) cs)"
proof -
  obtain s0 where s0: "NewSquare sz = SquarePtr s0"
    and eq0: "width (Rectangle s0) = height (Rectangle s0)"
    by (simp add: NewSquare_def Square_SetHeight_def)
  obtain s' where "foldl call_on (SquarePtr s0) cs = SquarePtr s'"
    and "width (Rectangle s') = height (Rectangle s')"
    using calls_on_Square [of s0 cs] eq0 by blast
  then show ?thesis
    using s0 eq0
    by (simp add: calls_on_def Square_SetWidth_def Square_SetHeight_def
        Rectangle_GetWidth_def Rectangle_GetHeight_def)
qed

section \<open>Properties of the manager\<close>

lemma DelegateWork_loop_worked:
  "worked (DelegateWork_loop ws r) = worked r @ ws"
proof (induction ws arbitrary: r)
  case Nil
  then show ?case by simp
next
  case (Cons w ws)
  have "worked (Work w r) = worked r @ [w]"
    by (cases w) (simp_all add: Println_def)
  with Cons.IH [of "Work w r"] show ?case by simp
qed

lemma workers_AddWorker: "workers (foldl AddWorker m ws) = workers m @ ws"
  by (induction ws arbitrary: m) (simp_all add: AddWorker_def)

text \<open>
  Claim C4. \<^verbatim>\<open>DelegateWork\<close> calls \<^verbatim>\<open>Work\<close> on the workers of the manager, once for each
  element of the slice and in its order; \<^verbatim>\<open>AddWorker\<close> appends to the slice. So on a
  manager on which the workers \<open>ws\<close> were registered one after the other, starting from
  \<^verbatim>\<open>&Manager{}\<close>, the calls of \<^verbatim>\<open>Work\<close> that \<^verbatim>\<open>DelegateWork\<close> makes are exactly \<open>ws\<close>.
\<close>

theorem DelegateWork_calls_registered_workers:
  "worked (DelegateWork m r) = worked r @ workers m
   \<and> workers (foldl AddWorker m ws) = workers m @ ws
   \<and> worked (DelegateWork (foldl AddWorker Manager_zero ws) r) = worked r @ ws"
  by (simp add: DelegateWork_def DelegateWork_loop_worked workers_AddWorker Manager_zero_def)

text \<open>What the calls print: one line for each worker, in the same order.\<close>

lemma DelegateWork_loop_stdout:
  "stdout (DelegateWork_loop ws r)
     = stdout r @ map (\<lambda>w. case w of RegularWorker p \<Rightarrow> ''Working...''
                                  | SpecialWorker p \<Rightarrow> ''Especially working...'') ws"
proof (induction ws arbitrary: r)
  case Nil
  then show ?case by simp
next
  case (Cons w ws)
  show ?case
    by (cases w) (simp_all add: Cons.IH Println_def)
qed

text \<open>The run of \<^verbatim>\<open>main\<close>: a regular and a special worker, and the two lines printed.\<close>

lemma dip_main_scenario:
  "DelegateWork
     (AddWorker (AddWorker Manager_zero (RegularWorker 1)) (SpecialWorker 2))
     \<lparr>stdout = [], worked = []\<rparr>
   = \<lparr>stdout = [''Working...'', ''Especially working...''],
      worked = [RegularWorker 1, SpecialWorker 2]\<rparr>"
  by (simp add: DelegateWork_def AddWorker_def Manager_zero_def Println_def)

section \<open>Properties of the two save methods\<close>

subsection \<open>The loop and the library\<close>

lemma fold_max_ge: "m \<le> fold max xs (m::nat)"
  by (induction xs arbitrary: m) (auto intro: order_trans [OF max.cobounded2])

lemma fold_max_mem: "x \<in> set xs \<Longrightarrow> x \<le> fold max xs (m::nat)"
  by (induction xs arbitrary: m) (auto intro: order_trans [OF max.cobounded1 fold_max_ge])

lemma fresh_fd_fresh: "fresh_fd ds \<notin> fst ` set ds"
proof
  assume "fresh_fd ds \<in> fst ` set ds"
  then have "fresh_fd ds \<in> set (map fst ds)" by simp
  then have "fresh_fd ds \<le> fold max (map fst ds) 0" by (rule fold_max_mem)
  then show False by (simp add: fresh_fd_def)
qed

lemma filter_fresh: "fd \<notin> fst ` set ds \<Longrightarrow> filter (\<lambda>d. fst d \<noteq> fd) ds = ds"
  by (induction ds) auto

lemma Save_loop_frame:
  "descriptors (Save_loop f es w) = descriptors w
   \<and> denied (Save_loop f es w) = denied w
   \<and> calls (Save_loop f es w) = calls w @ map (\<lambda>e. CallWriteString f (e @ newline)) es"
proof (induction es arbitrary: w)
  case Nil
  then show ?case by simp
next
  case (Cons e es)
  obtain fd where f: "f = File fd" by (cases f)
  show ?case
    unfolding f Save_loop.simps
    by (simp add: Cons.IH [unfolded f] Let_def split: option.splits)
qed

lemma Save_loop_files_other:
  "map_of (descriptors w) fd \<noteq> Some path \<Longrightarrow>
   files (Save_loop (File fd) es w) path = files w path"
proof (induction es arbitrary: w)
  case Nil
  then show ?case by simp
next
  case (Cons e es)
  let ?w1 = "snd (WriteString (File fd) (e @ newline) w)"
  have d: "descriptors ?w1 = descriptors w"
    by (simp add: Let_def split: option.splits)
  have "files ?w1 path = files w path"
    using Cons.prems by (auto simp add: Let_def split: option.splits)
  with Cons.IH [of ?w1] Cons.prems d show ?case by simp
qed

lemma Save_loop_files:
  assumes "map_of (descriptors w) fd = Some path"
    and "files w path = Some old"
    and "length (one_per_line es) \<le> free_bytes w"
  shows "files (Save_loop (File fd) es w) path = Some (old @ one_per_line es)"
  using assms
proof (induction es arbitrary: w old)
  case Nil
  then show ?case by (simp add: one_per_line_def)
next
  case (Cons e es)
  let ?w1 = "snd (WriteString (File fd) (e @ newline) w)"
  have len: "length (e @ newline) + length (one_per_line es) \<le> free_bytes w"
    using Cons.prems(3) by (simp add: one_per_line_def)
  have d: "map_of (descriptors ?w1) fd = Some path"
    using Cons.prems(1) by (simp add: Let_def)
  have f: "files ?w1 path = Some (old @ e @ newline)"
    using Cons.prems(1,2) len by (simp add: Let_def min_def)
  have s: "length (one_per_line es) \<le> free_bytes ?w1"
    using Cons.prems(1) len by (simp add: Let_def min_def)
  from Cons.IH [OF d f s] show ?case by (simp add: one_per_line_def)
qed

lemma Logger_Save_eq: "Logger_Save l filename w = LogFileWriter_Save l filename w"
  by (simp add: Logger_Save_def LogFileWriter_Save_def)

lemma LogFileWriter_Save_denied:
  "denied w filename \<Longrightarrow>
   LogFileWriter_Save logger filename w =
     (Some (PathError filename), logger, w\<lparr>calls := calls w @ [CallCreate filename None]\<rparr>)"
  by (simp add: LogFileWriter_Save_def os_Create_def)

lemma LogFileWriter_Save_created:
  assumes "\<not> denied w filename"
  shows "\<exists>w'. LogFileWriter_Save logger filename w = (None, logger, w')
     \<and> descriptors w' = descriptors w
     \<and> calls w' = calls w @ CallCreate filename (Some (File (fresh_fd (descriptors w))))
          # map (\<lambda>e. CallWriteString (File (fresh_fd (descriptors w))) (e @ newline))
              (logEntries logger)
          @ [CallClose (File (fresh_fd (descriptors w)))]
     \<and> (\<forall>p. p \<noteq> filename \<longrightarrow> files w' p = files w p)
     \<and> (length (one_per_line (logEntries logger)) \<le> free_bytes w \<longrightarrow>
           files w' filename = Some (one_per_line (logEntries logger)))"
proof -
  let ?fd = "fresh_fd (descriptors w)"
  let ?w1 = "w\<lparr>files := (files w)(filename \<mapsto> []),
                descriptors := (?fd, filename) # descriptors w,
                calls := calls w @ [CallCreate filename (Some (File ?fd))]\<rparr>"
  let ?w2 = "Save_loop (File ?fd) (logEntries logger) ?w1"
  let ?w3 = "snd (Close (File ?fd) ?w2)"
  have cr: "os_Create filename w = (Inr (File ?fd), ?w1)"
    using assms by (simp add: os_Create_def Let_def)
  have res: "LogFileWriter_Save logger filename w = (None, logger, ?w3)"
    by (simp add: LogFileWriter_Save_def cr Let_def)
  have fr: "descriptors ?w2 = (?fd, filename) # descriptors w"
    and ca: "calls ?w2
       = calls ?w1 @ map (\<lambda>e. CallWriteString (File ?fd) (e @ newline)) (logEntries logger)"
    using Save_loop_frame [of "File ?fd" "logEntries logger" ?w1] by simp_all
  have d3: "descriptors ?w3 = descriptors w"
    using fresh_fd_fresh [of "descriptors w"] by (simp add: fr filter_fresh)
  have c3: "calls ?w3 = calls ?w2 @ [CallClose (File ?fd)]"
    by (simp add: fr)
  have f3: "files ?w3 = files ?w2"
    by (simp add: fr)
  have other: "files ?w2 p = files w p" if "p \<noteq> filename" for p
    using Save_loop_files_other [of ?w1 ?fd p "logEntries logger"] that by simp
  have this_one: "files ?w2 filename = Some (one_per_line (logEntries logger))"
    if "length (one_per_line (logEntries logger)) \<le> free_bytes w"
    using Save_loop_files [of ?w1 ?fd filename "[]" "logEntries logger"] that by simp
  show ?thesis
    using res d3 c3 ca f3 other this_one by simp
qed

lemma logEntries_Log: "logEntries (foldl Log l entries) = logEntries l @ entries"
  by (induction entries arbitrary: l) (simp_all add: Log_def)

subsection \<open>Reading a saved file back\<close>

lemma read_lines_from_entry:
  "CHR 0x0A \<notin> set e \<Longrightarrow>
   read_lines_from cur (e @ CHR 0x0A # rest) = (cur @ e) # read_lines_from [] rest"
  by (induction e arbitrary: cur) auto

lemma read_lines_one_per_line:
  "(\<forall>e \<in> set entries. CHR 0x0A \<notin> set e) \<Longrightarrow> read_lines (one_per_line entries) = entries"
  unfolding read_lines_def one_per_line_def newline_def
  by (induction entries) (simp_all add: read_lines_from_entry)

subsection \<open>The claims on saving\<close>

text \<open>
  Claim C2, as stated: whatever entries are appended with \<^verbatim>\<open>Log\<close> and saved with
  \<^verbatim>\<open>LogFileWriter.Save\<close> to a destination that can be created, the file holds them one per
  line and reading it back gives the entries. This fails for an entry that contains a
  newline: the entry \<^verbatim>\<open>"a\nb"\<close> is written as it is and comes back as the two lines
  \<^verbatim>\<open>a\<close> and \<^verbatim>\<open>b\<close>. It fails as well where a write is cut short: \<^verbatim>\<open>Save\<close> drops the error
  of \<^verbatim>\<open>WriteString\<close> and returns \<^verbatim>\<open>nil\<close>, and on a device that takes three more bytes
  the file of the entry \<^verbatim>\<open>"entry1"\<close> holds \<^verbatim>\<open>ent\<close>.
\<close>

theorem Save_round_trip_counterexample:
  "fst (LogFileWriter_Save (Log Logger_zero [CHR ''a'', CHR 0x0A, CHR ''b''])
          ''./better.log'' (empty_disk 100)) = None
   \<and> files (snd (snd (LogFileWriter_Save (Log Logger_zero [CHR ''a'', CHR 0x0A, CHR ''b''])
          ''./better.log'' (empty_disk 100)))) ''./better.log''
       = Some [CHR ''a'', CHR 0x0A, CHR ''b'', CHR 0x0A]
   \<and> read_lines [CHR ''a'', CHR 0x0A, CHR ''b'', CHR 0x0A] = [''a'', ''b'']
   \<and> read_lines [CHR ''a'', CHR 0x0A, CHR ''b'', CHR 0x0A]
       \<noteq> logEntries (Log Logger_zero [CHR ''a'', CHR 0x0A, CHR ''b''])
   \<and> fst (LogFileWriter_Save (Log Logger_zero ''entry1'') ''./better.log'' (empty_disk 3)) = None
   \<and> files (snd (snd (LogFileWriter_Save (Log Logger_zero ''entry1'')
          ''./better.log'' (empty_disk 3)))) ''./better.log''
       = Some ''ent''"
  by (simp add: LogFileWriter_Save_def os_Create_def empty_disk_def Log_def Logger_zero_def
      fresh_fd_def newline_def read_lines_def Let_def)

text \<open>
  Claim C2, amended: for entries none of which contains a newline, appended with \<^verbatim>\<open>Log\<close>
  to a new logger and saved with \<^verbatim>\<open>LogFileWriter.Save\<close> to a destination that can be
  created, on a device that takes all the bytes written, \<^verbatim>\<open>Save\<close> returns \<^verbatim>\<open>nil\<close>, the
  file holds exactly the entries, one per line, each terminated by a newline, in the order
  of the appends, and reading the file back gives the entries.
\<close>

theorem Save_round_trip:
  assumes "\<not> denied w filename"
    and "\<forall>e \<in> set entries. CHR 0x0A \<notin> set e"
    and "length (one_per_line entries) \<le> free_bytes w"
  shows "\<exists>w'. LogFileWriter_Save (foldl Log Logger_zero entries) filename w
               = (None, foldl Log Logger_zero entries, w')
     \<and> files w' filename = Some (one_per_line entries)
     \<and> read_lines (one_per_line entries) = entries"
proof -
  have entries: "logEntries (foldl Log Logger_zero entries) = entries"
    by (simp add: logEntries_Log Logger_zero_def)
  from LogFileWriter_Save_created [OF assms(1), of "foldl Log Logger_zero entries"]
  obtain w' where "LogFileWriter_Save (foldl Log Logger_zero entries) filename w
               = (None, foldl Log Logger_zero entries, w')"
    and "files w' filename = Some (one_per_line entries)"
    using assms(3) unfolding entries by blast
  moreover have "read_lines (one_per_line entries) = entries"
    using assms(2) by (rule read_lines_one_per_line)
  ultimately show ?thesis by blast
qed

text \<open>The run of \<^verbatim>\<open>main\<close>: the two entries, saved to \<^verbatim>\<open>./better.log\<close>.\<close>

theorem Save_round_trip_witness:
  "\<exists>w'. LogFileWriter_Save (foldl Log Logger_zero [''entry1'', ''entry2''])
            ''./better.log'' (empty_disk 100)
          = (None, foldl Log Logger_zero [''entry1'', ''entry2''], w')
     \<and> files w' ''./better.log'' = Some (''entry1'' @ newline @ ''entry2'' @ newline)
     \<and> read_lines (''entry1'' @ newline @ ''entry2'' @ newline) = [''entry1'', ''entry2'']"
  using Save_round_trip [of "empty_disk 100" "''./better.log''" "[''entry1'', ''entry2'']"]
  by (simp add: empty_disk_def one_per_line_def newline_def)

text \<open>
  Claim C7. \<^verbatim>\<open>LogFileWriter.Save\<close> returns an error exactly when \<^verbatim>\<open>os.Create\<close> cannot
  create the destination, and the error it returns is the error of \<^verbatim>\<open>os.Create\<close>. On that
  path \<^verbatim>\<open>os.Create\<close> was called once and nothing else was: the logger is as it was, and
  the world differs from the one before the call by the record of that one call only, so
  no file was created or written and no descriptor was opened.
\<close>

theorem Save_fails_iff_not_created:
  "(fst (LogFileWriter_Save logger filename w) \<noteq> None) = denied w filename
   \<and> (fst (LogFileWriter_Save logger filename w) = Some err)
       = (fst (os_Create filename w) = Inl err)
   \<and> (denied w filename \<longrightarrow>
        LogFileWriter_Save logger filename w
          = (Some (PathError filename), logger,
             w\<lparr>calls := calls w @ [CallCreate filename None]\<rparr>))"
proof (cases "denied w filename")
  case True
  then show ?thesis
    by (auto simp add: LogFileWriter_Save_denied os_Create_def)
next
  case False
  from LogFileWriter_Save_created [OF False, of logger]
  obtain w' where "LogFileWriter_Save logger filename w = (None, logger, w')"
    by blast
  with False show ?thesis
    by (simp add: os_Create_def Let_def)
qed

theorem Save_fails_iff_not_created_witness:
  "denied read_only_disk ''./better.log''
   \<and> LogFileWriter_Save (Log Logger_zero ''entry1'') ''./better.log'' read_only_disk
       = (Some (PathError ''./better.log''), Log Logger_zero ''entry1'',
          read_only_disk\<lparr>calls := [CallCreate ''./better.log'' None]\<rparr>)"
  using Save_fails_iff_not_created
    [of "Log Logger_zero ''entry1''" "''./better.log''" read_only_disk "PathError ''./better.log''"]
  by (auto simp add: read_only_disk_def)

text \<open>
  Claim C8. A descriptor that a save method opens is closed by it: after the call, on the
  path that returns the error and on the path that returns \<^verbatim>\<open>nil\<close>, the open descriptors
  are those from before the call, for \<^verbatim>\<open>LogFileWriter.Save\<close> and for \<^verbatim>\<open>Logger.Save\<close>. On
  the error path \<^verbatim>\<open>os.Create\<close> has opened nothing and nothing more is called; on the other
  path the calls are \<^verbatim>\<open>os.Create\<close>, one \<^verbatim>\<open>WriteString\<close> for each entry and, last, the
  \<^verbatim>\<open>Close\<close> of the descriptor that \<^verbatim>\<open>os.Create\<close> returned.
\<close>

theorem Save_closes_what_it_opens:
  "descriptors (snd (snd (LogFileWriter_Save logger filename w))) = descriptors w
   \<and> descriptors (snd (snd (Logger_Save logger filename w))) = descriptors w
   \<and> calls (snd (snd (LogFileWriter_Save logger filename w)))
       = calls w @
         (if denied w filename then [CallCreate filename None]
          else CallCreate filename (Some (File (fresh_fd (descriptors w))))
               # map (\<lambda>e. CallWriteString (File (fresh_fd (descriptors w))) (e @ newline))
                   (logEntries logger)
               @ [CallClose (File (fresh_fd (descriptors w)))])"
proof (cases "denied w filename")
  case True
  then show ?thesis
    by (simp add: Logger_Save_eq LogFileWriter_Save_denied)
next
  case False
  from LogFileWriter_Save_created [OF False, of logger]
  obtain w' where "LogFileWriter_Save logger filename w = (None, logger, w')"
    and "descriptors w' = descriptors w"
    and "calls w' = calls w @ CallCreate filename (Some (File (fresh_fd (descriptors w))))
          # map (\<lambda>e. CallWriteString (File (fresh_fd (descriptors w))) (e @ newline))
              (logEntries logger)
          @ [CallClose (File (fresh_fd (descriptors w)))]"
    by blast
  with False show ?thesis
    by (simp add: Logger_Save_eq)
qed

end
